theory Spec2Isabelle
  imports Main "HOL-Library.Word"
begin

section \<open>Solem BLE toolkit: command encoding, resolution, connection and write pipeline\<close>

text \<open>
  A shallow embedding of \<^verbatim>\<open>custom_components/solem_toolkit/api.py\<close>.
  Python integers are \<open>int\<close>, \<open>bytes\<close> are lists of 8-bit words, strings are
  \<open>string\<close>. Every \<^verbatim>\<open>raise\<close> is a value \<open>Inl e\<close> of a sum type. Only
  subclasses of Python's \<^verbatim>\<open>Exception\<close> are exceptions here; task cancellation
  and interpreter exit are not part of the model.
\<close>

subsection \<open>Exceptions\<close>

text \<open>
  The exception classes that occur in the module: its own \<^verbatim>\<open>APIConnectionError\<close>
  with its message, the classes named by the handlers of \<^verbatim>\<open>_connect_client\<close>,
  \<^verbatim>\<open>struct.error\<close>, tenacity's \<^verbatim>\<open>RetryError\<close> (which wraps the exception of the
  last attempt) and any other \<^verbatim>\<open>Exception\<close>, kept with a label.
\<close>

datatype exn =
    APIConnectionError string
  | BleakOutOfConnectionSlotsError
  | BleakDBusError
  | TimeoutError
  | OSError
  | StructError
  | RetryError exn
  | OtherException string

subsection \<open>\<^verbatim>\<open>struct.pack\<close> with a big-endian format\<close>

type_synonym byte = "8 word"

text \<open>
  The two format characters the module uses: \<^verbatim>\<open>B\<close> (unsigned char, one byte) and
  \<^verbatim>\<open>H\<close> (unsigned short, two bytes, most significant first in a big-endian
  format). A value outside the range of its format character raises \<^verbatim>\<open>struct.error\<close>,
  as does a number of values different from the number of format characters.
\<close>

datatype fmt_char = FmtB | FmtH

fun pack_value :: "fmt_char \<Rightarrow> int \<Rightarrow> exn + byte list" where
  "pack_value FmtB v =
     (if 0 \<le> v \<and> v \<le> 255 then Inr [word_of_int v] else Inl StructError)"
| "pack_value FmtH v =
     (if 0 \<le> v \<and> v \<le> 65535 then Inr [word_of_int (v div 256), word_of_int (v mod 256)]
      else Inl StructError)"

fun struct_pack :: "fmt_char list \<Rightarrow> int list \<Rightarrow> exn + byte list" where
  "struct_pack [] [] = Inr []"
| "struct_pack (f # fs) (v # vs) =
     (case pack_value f v of
        Inl e \<Rightarrow> Inl e
      | Inr bs \<Rightarrow> (case struct_pack fs vs of Inl e \<Rightarrow> Inl e | Inr rest \<Rightarrow> Inr (bs @ rest)))"
| "struct_pack _ _ = Inl StructError"

subsection \<open>Command encoding\<close>

text \<open>
  The first statements of the seven control methods: clamp the parameters with
  \<^verbatim>\<open>max(lo, min(x, hi))\<close>, then pack the frame. Each definition is the
  \<^verbatim>\<open>command = struct.pack(...)\<close> line of the method of the same name.
\<close>

definition turn_on_command :: "exn + byte list" where
  "turn_on_command = struct_pack [FmtH, FmtB, FmtB, FmtB, FmtH] [0x3105, 0x12, 0xFF, 0x00, 0xFFFF]"

definition turn_off_permanent_command :: "exn + byte list" where
  "turn_off_permanent_command =
     struct_pack [FmtH, FmtB, FmtB, FmtB, FmtH] [0x3105, 0xC0, 0x00, 0x00, 0x0000]"

definition turn_off_x_days_command :: "int \<Rightarrow> exn + byte list" where
  "turn_off_x_days_command days0 =
     (let days = max 0 (min days0 365)
      in struct_pack [FmtH, FmtB, FmtB, FmtB, FmtH] [0x3105, 0x15, 0x00, days, 0xFFFF])"

definition sprinkle_station_x_for_y_minutes_command :: "int \<Rightarrow> int \<Rightarrow> exn + byte list" where
  "sprinkle_station_x_for_y_minutes_command station0 minutes0 =
     (let station = max 1 (min station0 16);
          minutes = max 1 (min minutes0 240)
      in struct_pack [FmtH, FmtB, FmtB, FmtB, FmtB, FmtH]
           [0x3105, 0x22, station, 0x00, minutes, 0xFFFF])"

definition sprinkle_all_stations_for_y_minutes_command :: "int \<Rightarrow> exn + byte list" where
  "sprinkle_all_stations_for_y_minutes_command minutes0 =
     (let minutes = max 1 (min minutes0 240)
      in struct_pack [FmtH, FmtB, FmtB, FmtB, FmtH] [0x3105, 0x23, 0x00, minutes, 0xFFFF])"

definition run_program_x_command :: "int \<Rightarrow> exn + byte list" where
  "run_program_x_command program0 =
     (let program = max 1 (min program0 3)
      in struct_pack [FmtH, FmtB, FmtB, FmtB, FmtH] [0x3105, 0x21, program, 0x00, 0xFFFF])"

definition stop_manual_sprinkle_command :: "exn + byte list" where
  "stop_manual_sprinkle_command =
     struct_pack [FmtH, FmtB, FmtB, FmtB, FmtH] [0x3105, 0x24, 0x00, 0x00, 0xFFFF]"

text \<open>The commit frame of \<^verbatim>\<open>_write_and_commit\<close>: \<^verbatim>\<open>struct.pack(">BB", 0x3B, 0x00)\<close>.\<close>

definition commit_command :: "exn + byte list" where
  "commit_command = struct_pack [FmtB, FmtB] [0x3B, 0x00]"

subsection \<open>Strings\<close>

text \<open>
  \<^verbatim>\<open>str.lower()\<close> on the characters a hardware address is written with: the
  letters \<^verbatim>\<open>A\<close> to \<^verbatim>\<open>Z\<close> move to \<^verbatim>\<open>a\<close> to \<^verbatim>\<open>z\<close>, every other
  character stays.
\<close>

definition lower_char :: "char \<Rightarrow> char" where
  "lower_char c =
     (case map_of (zip ''ABCDEFGHIJKLMNOPQRSTUVWXYZ'' ''abcdefghijklmnopqrstuvwxyz'') c of
        Some l \<Rightarrow> l
      | None \<Rightarrow> c)"

definition lower :: "string \<Rightarrow> string" where
  "lower s = map lower_char s"

subsection \<open>Devices, the transport and the events of a call\<close>

text \<open>
  A \<^verbatim>\<open>BLEDevice\<close> with the two attributes the module reads. The address may be
  absent: the source guards it with \<^verbatim>\<open>d.address or ""\<close>.
\<close>

record ble_device =
  address :: "string option"
  name :: "string option"

datatype client = BleakClient ble_device

text \<open>The GATT topology that \<^verbatim>\<open>list_characteristics\<close> walks.\<close>

record gatt_characteristic =
  char_uuid :: string
  properties :: "string list"
  descriptors :: "string list"

record gatt_service =
  svc_uuid :: string
  characteristics :: "gatt_characteristic list"

text \<open>
  Every call into the BLE stack is an event; the events of a call, in order, are what
  reached the radio. An outcome \<open>None\<close> of a write or a disconnect means it returned,
  \<open>Some e\<close> that it raised \<open>e\<close>.
\<close>

datatype event =
    FindDeviceByAddress string
  | Discover
  | ConnectTry ble_device
  | IsConnected bool
  | WriteGattChar "byte list" "exn option"
  | Sleep nat
  | GetServices
  | Disconnect "exn option"

text \<open>
  One try of the connector: it connects, fails for good, or fails in a way the connector
  answers with another try while tries remain.
\<close>

datatype try_outcome = TryOk | TryFatal exn | TryRetry exn

text \<open>
  The platform BLE stack is outside the module. It is a parameter: each of its operations
  answers as a function of everything that happened before (the events so far), which
  covers every deterministic behaviour of the radio, the device and the clock. Every
  operation that is a call may raise: the two scanner operations, a try of the connector,
  a GATT write, \<^verbatim>\<open>get_services\<close> and the disconnect.
  \<open>services\<close> is the \<^verbatim>\<open>services\<close> attribute of the client (\<open>None\<close> when absent or
  \<^verbatim>\<open>None\<close>); \<open>inner_get_services\<close> is \<^verbatim>\<open>get_services\<close> of the wrapped client, when
  there is one that has it.
\<close>

record transport =
  find_device_by_address :: "event list \<Rightarrow> string \<Rightarrow> exn + ble_device option"
  discover :: "event list \<Rightarrow> exn + ble_device list"
  connect_try :: "event list \<Rightarrow> ble_device \<Rightarrow> try_outcome"
  is_connected :: "event list \<Rightarrow> bool"
  write_gatt_char :: "event list \<Rightarrow> byte list \<Rightarrow> exn option"
  services :: "gatt_service list option"
  inner_get_services :: "(event list \<Rightarrow> exn + gatt_service list) option"
  disconnect :: "event list \<Rightarrow> exn option"

text \<open>
  A modelled method takes the transport and the events so far and returns its result
  together with the events it adds.
\<close>

type_synonym 'a outcome = "(exn + 'a) \<times> event list"

subsection \<open>Device resolution\<close>

text \<open>
  \<^verbatim>\<open>d.address or ""\<close>: the empty string for an absent address (and for an empty
  one, which is itself).
\<close>

definition address_or_empty :: "ble_device \<Rightarrow> string" where
  "address_or_empty d = (case address d of None \<Rightarrow> [] | Some a \<Rightarrow> a)"

text \<open>The \<^verbatim>\<open>for d in devices\<close> loop of \<^verbatim>\<open>_resolve_ble_device\<close>.\<close>

fun scan_match :: "string \<Rightarrow> ble_device list \<Rightarrow> ble_device option" where
  "scan_match mac [] = None"
| "scan_match mac (d # ds) =
     (if lower (address_or_empty d) = lower mac then Some d else scan_match mac ds)"

text \<open>
  \<^verbatim>\<open>_resolve_ble_device\<close>. Neither scanner call stands in a \<^verbatim>\<open>try\<close>: what the
  scanner raises leaves the method as it is.
\<close>

definition resolve_ble_device :: "transport \<Rightarrow> string \<Rightarrow> event list \<Rightarrow> ble_device outcome" where
  "resolve_ble_device T mac h =
     (case find_device_by_address T h mac of
        Inl e \<Rightarrow> (Inl e, [FindDeviceByAddress mac])
      | Inr (Some ble_device) \<Rightarrow> (Inr ble_device, [FindDeviceByAddress mac])
      | Inr None \<Rightarrow>
          (case discover T (h @ [FindDeviceByAddress mac]) of
             Inl e \<Rightarrow> (Inl e, [FindDeviceByAddress mac, Discover])
           | Inr devices \<Rightarrow>
               (case scan_match mac devices of
                  Some d \<Rightarrow> (Inr d, [FindDeviceByAddress mac, Discover])
                | None \<Rightarrow>
                    (Inl (APIConnectionError ''Device not found! Failed connecting!''),
                     [FindDeviceByAddress mac, Discover]))))"

subsection \<open>Connection\<close>

text \<open>
  \<^verbatim>\<open>establish_connection\<close> of bleak-retry-connector, as the module uses it: it is given
  one device and \<^verbatim>\<open>max_attempts\<close>, no callback that would fetch a fresh device, and
  tries that same device again until a try connects, fails for good, or the budget is
  used up. The first argument counts the tries left after the current one.
\<close>

fun establish_tries :: "nat \<Rightarrow> transport \<Rightarrow> ble_device \<Rightarrow> event list \<Rightarrow> client outcome" where
  "establish_tries 0 T d h =
     (case connect_try T h d of
        TryOk \<Rightarrow> (Inr (BleakClient d), [ConnectTry d])
      | TryFatal e \<Rightarrow> (Inl e, [ConnectTry d])
      | TryRetry e \<Rightarrow> (Inl e, [ConnectTry d]))"
| "establish_tries (Suc n) T d h =
     (case connect_try T h d of
        TryOk \<Rightarrow> (Inr (BleakClient d), [ConnectTry d])
      | TryFatal e \<Rightarrow> (Inl e, [ConnectTry d])
      | TryRetry e \<Rightarrow>
          (case establish_tries n T d (h @ [ConnectTry d]) of
             (r, evs) \<Rightarrow> (r, ConnectTry d # evs)))"

definition establish_connection :: "transport \<Rightarrow> ble_device \<Rightarrow> nat \<Rightarrow> event list \<Rightarrow> client outcome" where
  "establish_connection T d max_attempts h = establish_tries (max_attempts - 1) T d h"

text \<open>The three \<^verbatim>\<open>except\<close> clauses of \<^verbatim>\<open>_connect_client\<close>, in their order.\<close>

fun connect_error :: "exn \<Rightarrow> exn" where
  "connect_error BleakOutOfConnectionSlotsError =
     APIConnectionError ''Bluetooth adapter/proxy out of connection slots or device busy/unreachable''"
| "connect_error BleakDBusError = APIConnectionError ''Timeout connecting to device''"
| "connect_error TimeoutError = APIConnectionError ''Timeout connecting to device''"
| "connect_error OSError = APIConnectionError ''Timeout connecting to device''"
| "connect_error _ = APIConnectionError ''Unexpected BLE connection error''"

text \<open>
  \<^verbatim>\<open>_connect_client\<close>. The resolution is outside the \<^verbatim>\<open>try\<close>, so its error,
  the device-not-found error or an exception of the scanner, goes to the caller as it is. The lock has one holder at a time; one call taken alone
  acquires and releases it around this body.
\<close>

definition connect_client :: "transport \<Rightarrow> string \<Rightarrow> event list \<Rightarrow> client outcome" where
  "connect_client T mac h =
     (case resolve_ble_device T mac h of
        (Inl e, evs) \<Rightarrow> (Inl e, evs)
      | (Inr ble_device, evs) \<Rightarrow>
          (case establish_connection T ble_device 3 (h @ evs) of
             (Inr c, evs') \<Rightarrow> (Inr c, evs @ evs')
           | (Inl e, evs') \<Rightarrow> (Inl (connect_error e), evs @ evs')))"

subsection \<open>The write pipeline\<close>

text \<open>
  The body of \<^verbatim>\<open>_write_with_auth_retry\<close>, one attempt: the connected check, then the
  GATT write.
\<close>

definition write_attempt :: "transport \<Rightarrow> byte list \<Rightarrow> event list \<Rightarrow> unit outcome" where
  "write_attempt T payload h =
     (let c = is_connected T h
      in if \<not> c then (Inl (APIConnectionError ''Client not connected''), [IsConnected c])
         else (case write_gatt_char T (h @ [IsConnected c]) payload of
                 None \<Rightarrow> (Inr (), [IsConnected c, WriteGattChar payload None])
               | Some e \<Rightarrow> (Inl e, [IsConnected c, WriteGattChar payload (Some e)])))"

text \<open>
  \<^verbatim>\<open>wait_exponential(multiplier=0.4, min=0.4, max=2)\<close> after attempt \<open>k\<close> (counted
  from 1), in milliseconds: \<open>0.4 * 2 ^ (k - 1)\<close> seconds, kept between 0.4 and 2.
\<close>

definition wait_exponential :: "nat \<Rightarrow> nat" where
  "wait_exponential k = max 400 (min (400 * 2 ^ (k - 1)) 2000)"

text \<open>
  The decorator \<^verbatim>\<open>@retry(stop=stop_after_attempt(3), wait=wait_exponential(...))\<close> around
  that body. It names no exception type, so tenacity retries after any exception of the
  body, the one of the connected check included, and it does not set \<^verbatim>\<open>reraise\<close>, so
  when the last attempt fails it raises \<^verbatim>\<open>RetryError\<close> holding that attempt's
  exception. The first argument counts the attempts left after the current one, the second
  is the number of the current attempt.
\<close>

fun retrying :: "nat \<Rightarrow> nat \<Rightarrow> transport \<Rightarrow> byte list \<Rightarrow> event list \<Rightarrow> unit outcome" where
  "retrying 0 k T payload h =
     (case write_attempt T payload h of
        (Inr u, evs) \<Rightarrow> (Inr u, evs)
      | (Inl e, evs) \<Rightarrow> (Inl (RetryError e), evs))"
| "retrying (Suc n) k T payload h =
     (case write_attempt T payload h of
        (Inr u, evs) \<Rightarrow> (Inr u, evs)
      | (Inl e, evs) \<Rightarrow>
          (case retrying n (Suc k) T payload (h @ evs @ [Sleep (wait_exponential k)]) of
             (r, evs') \<Rightarrow> (r, evs @ Sleep (wait_exponential k) # evs')))"

definition write_with_auth_retry :: "transport \<Rightarrow> byte list \<Rightarrow> event list \<Rightarrow> unit outcome" where
  "write_with_auth_retry T payload h = retrying 2 1 T payload h"

text \<open>
  The \<^verbatim>\<open>finally\<close> clause shared by \<^verbatim>\<open>_write_and_commit\<close> and
  \<^verbatim>\<open>list_characteristics\<close>: \<^verbatim>\<open>try: await client.disconnect() except Exception: pass\<close>.
\<close>

definition disconnect_quietly :: "transport \<Rightarrow> event list \<Rightarrow> unit outcome" where
  "disconnect_quietly T h =
     (case disconnect T h of
        None \<Rightarrow> (Inr (), [Disconnect None])
      | Some e \<Rightarrow> (Inr (), [Disconnect (Some e)]))"

text \<open>
  \<^verbatim>\<open>try: body finally: cleanup\<close>: the cleanup runs after the body whatever the body
  did; an exception of the cleanup would replace the body's result, otherwise the body's
  result or exception stands.
\<close>

definition try_finally ::
  "(event list \<Rightarrow> 'a outcome) \<Rightarrow> (event list \<Rightarrow> unit outcome) \<Rightarrow> event list \<Rightarrow> 'a outcome" where
  "try_finally body cleanup h =
     (case body h of
        (r, evs) \<Rightarrow>
          (case cleanup (h @ evs) of
             (Inl e, evs') \<Rightarrow> (Inl e, evs @ evs')
           | (Inr u, evs') \<Rightarrow> (r, evs @ evs')))"

text \<open>The \<^verbatim>\<open>try\<close> block of \<^verbatim>\<open>_write_and_commit\<close>.\<close>

definition write_and_commit_body :: "transport \<Rightarrow> byte list \<Rightarrow> event list \<Rightarrow> unit outcome" where
  "write_and_commit_body T command h =
     (let c = is_connected T h
      in if \<not> c then (Inl (APIConnectionError ''Failed connecting!''), [IsConnected c])
         else (case write_with_auth_retry T command (h @ [IsConnected c]) of
                 (Inl e, evs) \<Rightarrow> (Inl e, IsConnected c # evs)
               | (Inr u, evs) \<Rightarrow>
                   (case commit_command of
                      Inl e \<Rightarrow> (Inl e, IsConnected c # evs)
                    | Inr commit \<Rightarrow>
                        (case write_with_auth_retry T commit (h @ IsConnected c # evs) of
                           (r, evs') \<Rightarrow> (r, IsConnected c # evs @ evs')))))"

text \<open>\<^verbatim>\<open>_write_and_commit\<close>: connect outside the \<^verbatim>\<open>try\<close>, then the guarded body.\<close>

definition write_and_commit :: "transport \<Rightarrow> string \<Rightarrow> byte list \<Rightarrow> event list \<Rightarrow> unit outcome" where
  "write_and_commit T mac command h =
     (case connect_client T mac h of
        (Inl e, evs) \<Rightarrow> (Inl e, evs)
      | (Inr cl, evs) \<Rightarrow>
          (case try_finally (write_and_commit_body T command) (disconnect_quietly T) (h @ evs) of
             (r, evs') \<Rightarrow> (r, evs @ evs')))"

subsection \<open>The diagnostics reader\<close>

text \<open>The dictionary built by the two nested loops of \<^verbatim>\<open>list_characteristics\<close>.\<close>

definition topology :: "gatt_service list \<Rightarrow> (string \<rightharpoonup> gatt_characteristic list)" where
  "topology svcs =
     fold (\<lambda>svc result. result(svc_uuid svc \<mapsto>
             map (\<lambda>c. \<lparr>char_uuid = char_uuid c, properties = properties c,
                        descriptors = descriptors c\<rparr>) (characteristics svc)))
          svcs Map.empty"

definition list_characteristics_body ::
  "transport \<Rightarrow> event list \<Rightarrow> (string \<rightharpoonup> gatt_characteristic list) outcome" where
  "list_characteristics_body T h =
     (let c = is_connected T h
      in if \<not> c then (Inl (APIConnectionError ''Failed connecting!''), [IsConnected c])
         else (case services T of
                 Some svcs \<Rightarrow> (Inr (topology svcs), [IsConnected c])
               | None \<Rightarrow>
                   (case inner_get_services T of
                      Some get_services \<Rightarrow>
                        (case get_services (h @ [IsConnected c]) of
                           Inl e \<Rightarrow> (Inl e, [IsConnected c, GetServices])
                         | Inr svcs \<Rightarrow> (Inr (topology svcs), [IsConnected c, GetServices]))
                    | None \<Rightarrow>
                        (Inl (APIConnectionError ''Services not available on this platform/client''),
                         [IsConnected c]))))"

definition list_characteristics ::
  "transport \<Rightarrow> string \<Rightarrow> event list \<Rightarrow> (string \<rightharpoonup> gatt_characteristic list) outcome" where
  "list_characteristics T mac h =
     (case connect_client T mac h of
        (Inl e, evs) \<Rightarrow> (Inl e, evs)
      | (Inr cl, evs) \<Rightarrow>
          (case try_finally (list_characteristics_body T) (disconnect_quietly T) (h @ evs) of
             (r, evs') \<Rightarrow> (r, evs @ evs')))"

subsection \<open>The control methods\<close>

text \<open>
  Each control method packs its frame and hands it to \<^verbatim>\<open>_write_and_commit\<close>; when
  the packing raises, nothing reaches the radio.
\<close>

definition run_command :: "exn + byte list \<Rightarrow> transport \<Rightarrow> string \<Rightarrow> event list \<Rightarrow> unit outcome" where
  "run_command packed T mac h =
     (case packed of Inl e \<Rightarrow> (Inl e, []) | Inr command \<Rightarrow> write_and_commit T mac command h)"

definition turn_on :: "transport \<Rightarrow> string \<Rightarrow> event list \<Rightarrow> unit outcome" where
  "turn_on = run_command turn_on_command"

definition turn_off_permanent :: "transport \<Rightarrow> string \<Rightarrow> event list \<Rightarrow> unit outcome" where
  "turn_off_permanent = run_command turn_off_permanent_command"

definition turn_off_x_days :: "int \<Rightarrow> transport \<Rightarrow> string \<Rightarrow> event list \<Rightarrow> unit outcome" where
  "turn_off_x_days days = run_command (turn_off_x_days_command days)"

definition sprinkle_station_x_for_y_minutes ::
  "int \<Rightarrow> int \<Rightarrow> transport \<Rightarrow> string \<Rightarrow> event list \<Rightarrow> unit outcome" where
  "sprinkle_station_x_for_y_minutes station minutes =
     run_command (sprinkle_station_x_for_y_minutes_command station minutes)"

definition sprinkle_all_stations_for_y_minutes ::
  "int \<Rightarrow> transport \<Rightarrow> string \<Rightarrow> event list \<Rightarrow> unit outcome" where
  "sprinkle_all_stations_for_y_minutes minutes =
     run_command (sprinkle_all_stations_for_y_minutes_command minutes)"

definition run_program_x :: "int \<Rightarrow> transport \<Rightarrow> string \<Rightarrow> event list \<Rightarrow> unit outcome" where
  "run_program_x program = run_command (run_program_x_command program)"

definition stop_manual_sprinkle :: "transport \<Rightarrow> string \<Rightarrow> event list \<Rightarrow> unit outcome" where
  "stop_manual_sprinkle = run_command stop_manual_sprinkle_command"

subsection \<open>Reading the events of a call\<close>

text \<open>Predicates that pick out the disconnects, the GATT writes and the connection tries.\<close>

fun is_disconnect :: "event \<Rightarrow> bool" where
  "is_disconnect (Disconnect x) = True"
| "is_disconnect _ = False"

fun is_write :: "event \<Rightarrow> bool" where
  "is_write (WriteGattChar p x) = True"
| "is_write _ = False"

fun is_connect_try :: "event \<Rightarrow> bool" where
  "is_connect_try (ConnectTry d) = True"
| "is_connect_try _ = False"

definition disconnects :: "event list \<Rightarrow> event list" where
  "disconnects evs = filter is_disconnect evs"

subsection \<open>Concrete stacks\<close>

text \<open>
  Scripted BLE stacks for the concrete runs further down: one where everything works and
  the device is found by its address, and variants of it that differ in one behaviour each.
\<close>

definition solem_device :: ble_device where
  "solem_device = \<lparr>address = Some ''AA:BB:CC:DD:EE:FF'', name = Some ''Solem''\<rparr>"

definition other_device :: ble_device where
  "other_device = \<lparr>address = Some ''11:22:33:44:55:66'', name = None\<rparr>"

definition nameless_device :: ble_device where
  "nameless_device = \<lparr>address = None, name = None\<rparr>"

definition steady_stack :: transport where
  "steady_stack =
     \<lparr>find_device_by_address = (\<lambda>h mac. Inr (Some solem_device)),
      discover = (\<lambda>h. Inr []),
      connect_try = (\<lambda>h d. TryOk),
      is_connected = (\<lambda>h. True),
      write_gatt_char = (\<lambda>h p. None),
      services = None,
      inner_get_services = None,
      disconnect = (\<lambda>h. None)\<rparr>"

definition scanning_stack :: transport where
  "scanning_stack =
     steady_stack\<lparr>find_device_by_address := (\<lambda>h mac. Inr None),
                  discover := (\<lambda>h. Inr [nameless_device, other_device, solem_device])\<rparr>"

definition empty_stack :: transport where
  "empty_stack = steady_stack\<lparr>find_device_by_address := (\<lambda>h mac. Inr None)\<rparr>"

definition nameless_stack :: transport where
  "nameless_stack =
     steady_stack\<lparr>find_device_by_address := (\<lambda>h mac. Inr None),
                  discover := (\<lambda>h. Inr [nameless_device])\<rparr>"

definition flaky_connect_stack :: transport where
  "flaky_connect_stack =
     steady_stack\<lparr>connect_try :=
       (\<lambda>h d. if length (filter is_connect_try h) < 2 then TryRetry TimeoutError else TryOk)\<rparr>"

definition out_of_slots_stack :: transport where
  "out_of_slots_stack =
     steady_stack\<lparr>connect_try := (\<lambda>h d. TryFatal BleakOutOfConnectionSlotsError)\<rparr>"

definition dropped_stack :: transport where
  "dropped_stack = steady_stack\<lparr>is_connected := (\<lambda>h. False)\<rparr>"

definition dropping_stack :: transport where
  "dropping_stack = steady_stack\<lparr>is_connected := (\<lambda>h. IsConnected True \<notin> set h)\<rparr>"

definition scanner_down_stack :: transport where
  "scanner_down_stack = steady_stack\<lparr>find_device_by_address := (\<lambda>h mac. Inl BleakDBusError)\<rparr>"

definition connector_down_stack :: transport where
  "connector_down_stack = steady_stack\<lparr>connect_try := (\<lambda>h d. TryFatal BleakDBusError)\<rparr>"

definition flaky_write_stack :: transport where
  "flaky_write_stack =
     steady_stack\<lparr>write_gatt_char := (\<lambda>h p. if filter is_write h = [] then Some OSError else None),
                  disconnect := (\<lambda>h. Some OSError)\<rparr>"

section \<open>Command frames\<close>

text \<open>
  The frames of the methods whose parameters always fit their format: the marker
  \<open>0x3105\<close> as two bytes, the action byte, the parameter bytes and the trailer.
\<close>

lemma turn_on_frame:
  "turn_on_command = Inr [0x31, 0x05, 0x12, 0xFF, 0x00, 0xFF, 0xFF]"
  by (simp add: turn_on_command_def)

lemma turn_off_permanent_frame:
  "turn_off_permanent_command = Inr [0x31, 0x05, 0xC0, 0x00, 0x00, 0x00, 0x00]"
  by (simp add: turn_off_permanent_command_def)

lemma stop_manual_sprinkle_frame:
  "stop_manual_sprinkle_command = Inr [0x31, 0x05, 0x24, 0x00, 0x00, 0xFF, 0xFF]"
  by (simp add: stop_manual_sprinkle_command_def)

lemma sprinkle_station_x_for_y_minutes_frame:
  "sprinkle_station_x_for_y_minutes_command station minutes =
     Inr [0x31, 0x05, 0x22, word_of_int (max 1 (min station 16)), 0x00,
          word_of_int (max 1 (min minutes 240)), 0xFF, 0xFF]"
  by (auto simp add: sprinkle_station_x_for_y_minutes_command_def Let_def min_def max_def)

lemma sprinkle_all_stations_for_y_minutes_frame:
  "sprinkle_all_stations_for_y_minutes_command minutes =
     Inr [0x31, 0x05, 0x23, 0x00, word_of_int (max 1 (min minutes 240)), 0xFF, 0xFF]"
  by (auto simp add: sprinkle_all_stations_for_y_minutes_command_def Let_def min_def max_def)

lemma run_program_x_frame:
  "run_program_x_command program =
     Inr [0x31, 0x05, 0x21, word_of_int (max 1 (min program 3)), 0x00, 0xFF, 0xFF]"
  by (auto simp add: run_program_x_command_def Let_def min_def max_def)

text \<open>
  The days of \<^verbatim>\<open>turn_off_x_days\<close> are clamped to 365 and then packed with the
  one-byte format \<^verbatim>\<open>B\<close>: a frame exists exactly when the input is at most 255.
\<close>

lemma turn_off_x_days_frame:
  "turn_off_x_days_command days =
     (if days \<le> 255 then Inr [0x31, 0x05, 0x15, 0x00, word_of_int (max 0 days), 0xFF, 0xFF]
      else Inl StructError)"
  by (auto simp add: turn_off_x_days_command_def Let_def min_def max_def)

text \<open>No control frame is the commit frame: they have seven or eight bytes, it has two.\<close>

lemma control_frames_not_commit:
  "turn_on_command \<noteq> Inr [0x3B, 0x00]"
  "turn_off_permanent_command \<noteq> Inr [0x3B, 0x00]"
  "turn_off_x_days_command days \<noteq> Inr [0x3B, 0x00]"
  "sprinkle_station_x_for_y_minutes_command station minutes \<noteq> Inr [0x3B, 0x00]"
  "sprinkle_all_stations_for_y_minutes_command minutes \<noteq> Inr [0x3B, 0x00]"
  "run_program_x_command program \<noteq> Inr [0x3B, 0x00]"
  "stop_manual_sprinkle_command \<noteq> Inr [0x3B, 0x00]"
  by (simp_all add: turn_on_frame turn_off_permanent_frame turn_off_x_days_frame
        sprinkle_station_x_for_y_minutes_frame sprinkle_all_stations_for_y_minutes_frame
        run_program_x_frame stop_manual_sprinkle_frame)

text \<open>The examples of the clamps that hold on the code.\<close>

lemma sprinkle_station_clamps_high:
  "sprinkle_station_x_for_y_minutes_command 99 500 =
     Inr [0x31, 0x05, 0x22, 16, 0x00, 240, 0xFF, 0xFF]"
  by (simp add: sprinkle_station_x_for_y_minutes_frame)

lemma sprinkle_station_clamps_low:
  "sprinkle_station_x_for_y_minutes_command 0 0 =
     Inr [0x31, 0x05, 0x22, 1, 0x00, 1, 0xFF, 0xFF]"
  by (simp add: sprinkle_station_x_for_y_minutes_frame)

lemma turn_off_x_days_clamps_low:
  "turn_off_x_days_command (- 5) = Inr [0x31, 0x05, 0x15, 0x00, 0, 0xFF, 0xFF]"
  by (simp add: turn_off_x_days_frame)

text \<open>
  C1: every control action yields its frame of the encoding table. On the code,
  \<^verbatim>\<open>turn_off_x_days(300)\<close> has its days inside the clamp range \<open>[0, 365]\<close> and yet yields
  no frame: packing 300 as one byte raises \<^verbatim>\<open>struct.error\<close>, and nothing is sent.
\<close>

theorem turn_off_x_days_300_no_frame:
  "turn_off_x_days_command 300 = Inl StructError \<and>
   turn_off_x_days 300 T mac h = (Inl StructError, [])"
  by (simp add: turn_off_x_days_frame turn_off_x_days_def run_command_def)

text \<open>
  C2: out-of-range input is pulled to the nearest bound and never rejected, so that
  \<^verbatim>\<open>turn_off_x_days(1000)\<close> encodes 365 days. On the code the clamp gives 365, which
  the one-byte format rejects: the call raises \<^verbatim>\<open>struct.error\<close> instead of encoding.
\<close>

theorem turn_off_x_days_1000_rejected:
  "max 0 (min (1000 :: int) 365) = 365 \<and>
   pack_value FmtB 365 = Inl StructError \<and>
   turn_off_x_days_command 1000 = Inl StructError"
  by (simp add: turn_off_x_days_frame)

section \<open>Device resolution and connection\<close>

lemma lower_Nil_iff: "lower [] = lower s \<longleftrightarrow> s = []"
  by (auto simp add: lower_def)

lemma scan_match_None_iff:
  "scan_match mac ds = None \<longleftrightarrow> (\<forall>x\<in>set ds. lower (address_or_empty x) \<noteq> lower mac)"
  by (induction ds) auto

lemma scan_match_Some_first:
  "scan_match mac ds = Some d \<Longrightarrow>
     \<exists>pre post. ds = pre @ d # post \<and> (\<forall>x\<in>set pre. lower (address_or_empty x) \<noteq> lower mac)
       \<and> lower (address_or_empty d) = lower mac"
proof (induction ds)
  case Nil
  then show ?case by simp
next
  case (Cons a ds)
  show ?case
  proof (cases "lower (address_or_empty a) = lower mac")
    case True
    with Cons.prems have "a = d" by simp
    with True have "a # ds = [] @ d # ds \<and> (\<forall>x\<in>set []. lower (address_or_empty x) \<noteq> lower mac)
       \<and> lower (address_or_empty d) = lower mac" by simp
    then show ?thesis by blast
  next
    case False
    with Cons.prems have "scan_match mac ds = Some d" by simp
    from Cons.IH [OF this] obtain pre post where
      "ds = pre @ d # post" "\<forall>x\<in>set pre. lower (address_or_empty x) \<noteq> lower mac"
      "lower (address_or_empty d) = lower mac" by blast
    with False have "a # ds = (a # pre) @ d # post \<and>
       (\<forall>x\<in>set (a # pre). lower (address_or_empty x) \<noteq> lower mac) \<and>
       lower (address_or_empty d) = lower mac" by simp
    then show ?thesis by blast
  qed
qed

lemma resolve_ble_device_error:
  "fst (resolve_ble_device T mac h) = Inl e \<Longrightarrow>
     e = APIConnectionError ''Device not found! Failed connecting!'' \<or>
     find_device_by_address T h mac = Inl e \<or>
     discover T (h @ [FindDeviceByAddress mac]) = Inl e"
  by (auto simp: resolve_ble_device_def split: option.splits sum.splits)

lemma resolve_ble_device_events:
  "snd (resolve_ble_device T mac h) = [FindDeviceByAddress mac] \<or>
   snd (resolve_ble_device T mac h) = [FindDeviceByAddress mac, Discover]"
  by (auto simp: resolve_ble_device_def split: option.splits sum.splits)

text \<open>
  C5: device resolution first asks for the device by its address; a match is returned at
  once and the only event is that lookup, so the scan never runs. When the lookup returns
  no match it runs one discovery scan and returns the first device of the result whose
  address equals the configured one after lower-casing both; when no device of the result
  matches, it fails with the device-not-found error. (What the scanner itself raises, in
  the lookup or in the scan, ends the resolution with that exception.)
\<close>

theorem resolve_ble_device_fast_path_then_scan:
  "(find_device_by_address T h mac = Inr (Some d) \<longrightarrow>
      resolve_ble_device T mac h = (Inr d, [FindDeviceByAddress mac])) \<and>
   (find_device_by_address T h mac = Inr None \<longrightarrow>
      snd (resolve_ble_device T mac h) = [FindDeviceByAddress mac, Discover] \<and>
      (\<forall>ds. discover T (h @ [FindDeviceByAddress mac]) = Inr ds \<longrightarrow>
        ((\<exists>pre d' post.
            ds = pre @ d' # post \<and>
            (\<forall>x\<in>set pre. lower (address_or_empty x) \<noteq> lower mac) \<and>
            lower (address_or_empty d') = lower mac \<and>
            fst (resolve_ble_device T mac h) = Inr d') \<or>
         ((\<forall>x\<in>set ds. lower (address_or_empty x) \<noteq> lower mac) \<and>
          fst (resolve_ble_device T mac h) =
            Inl (APIConnectionError ''Device not found! Failed connecting!''))))) \<and>
   (\<forall>x. find_device_by_address T h mac = Inl x \<longrightarrow>
      resolve_ble_device T mac h = (Inl x, [FindDeviceByAddress mac])) \<and>
   (\<forall>x. find_device_by_address T h mac = Inr None \<and>
        discover T (h @ [FindDeviceByAddress mac]) = Inl x \<longrightarrow>
      resolve_ble_device T mac h = (Inl x, [FindDeviceByAddress mac, Discover]))"
proof (intro conjI impI allI)
  assume "find_device_by_address T h mac = Inr (Some d)"
  then show "resolve_ble_device T mac h = (Inr d, [FindDeviceByAddress mac])"
    by (simp add: resolve_ble_device_def)
next
  fix x
  assume "find_device_by_address T h mac = Inl x"
  then show "resolve_ble_device T mac h = (Inl x, [FindDeviceByAddress mac])"
    by (simp add: resolve_ble_device_def)
next
  fix x
  assume "find_device_by_address T h mac = Inr None \<and>
        discover T (h @ [FindDeviceByAddress mac]) = Inl x"
  then show "resolve_ble_device T mac h = (Inl x, [FindDeviceByAddress mac, Discover])"
    by (simp add: resolve_ble_device_def)
next
  assume none: "find_device_by_address T h mac = Inr None"
  then show "snd (resolve_ble_device T mac h) = [FindDeviceByAddress mac, Discover]"
    by (simp add: resolve_ble_device_def split: option.splits sum.splits)
  fix ds
  assume ds: "discover T (h @ [FindDeviceByAddress mac]) = Inr ds"
  show "(\<exists>pre d' post.
          ds = pre @ d' # post \<and>
          (\<forall>x\<in>set pre. lower (address_or_empty x) \<noteq> lower mac) \<and>
          lower (address_or_empty d') = lower mac \<and>
          fst (resolve_ble_device T mac h) = Inr d') \<or>
       ((\<forall>x\<in>set ds. lower (address_or_empty x) \<noteq> lower mac) \<and>
        fst (resolve_ble_device T mac h) =
          Inl (APIConnectionError ''Device not found! Failed connecting!''))"
  proof (cases "scan_match mac ds")
    case None
    then have "\<forall>x\<in>set ds. lower (address_or_empty x) \<noteq> lower mac"
      by (simp add: scan_match_None_iff)
    moreover from None none ds have "fst (resolve_ble_device T mac h) =
          Inl (APIConnectionError ''Device not found! Failed connecting!'')"
      by (simp add: resolve_ble_device_def)
    ultimately show ?thesis by blast
  next
    case (Some d')
    from scan_match_Some_first [OF Some] obtain pre post where
      "ds = pre @ d' # post" "\<forall>x\<in>set pre. lower (address_or_empty x) \<noteq> lower mac"
      "lower (address_or_empty d') = lower mac" by blast
    moreover from Some none ds have "fst (resolve_ble_device T mac h) = Inr d'"
      by (simp add: resolve_ble_device_def)
    ultimately show ?thesis by blast
  qed
qed

lemma establish_tries_events:
  "\<exists>k. snd (establish_tries n T d h) = replicate k (ConnectTry d) \<and> 0 < k \<and> k \<le> Suc n"
proof (induction n arbitrary: h)
  case 0
  have "snd (establish_tries 0 T d h) = replicate 1 (ConnectTry d)"
    by (simp split: try_outcome.splits)
  then show ?case by (metis zero_less_one le_refl One_nat_def)
next
  case (Suc n)
  show ?case
  proof (cases "connect_try T h d")
    case (TryRetry e)
    from Suc [of "h @ [ConnectTry d]"] obtain k where
      k: "snd (establish_tries n T d (h @ [ConnectTry d])) = replicate k (ConnectTry d)"
         "0 < k" "k \<le> Suc n" by blast
    with TryRetry have "snd (establish_tries (Suc n) T d h) = replicate (Suc k) (ConnectTry d)"
      by (simp add: case_prod_unfold)
    with k show ?thesis by (metis Suc_le_mono zero_less_Suc)
  next
    case TryOk
    then have "snd (establish_tries (Suc n) T d h) = replicate 1 (ConnectTry d)" by simp
    then show ?thesis by (metis zero_less_one One_nat_def le_add1 plus_1_eq_Suc)
  next
    case (TryFatal e)
    then have "snd (establish_tries (Suc n) T d h) = replicate 1 (ConnectTry d)" by simp
    then show ?thesis by (metis zero_less_one One_nat_def le_add1 plus_1_eq_Suc)
  qed
qed

lemma establish_connection_events:
  "\<exists>k. snd (establish_connection T d 3 h) = replicate k (ConnectTry d) \<and> 0 < k \<and> k \<le> 3"
proof -
  have "establish_connection T d 3 h = establish_tries 2 T d h"
    by (simp add: establish_connection_def)
  with establish_tries_events [of 2 T d h] show ?thesis
    by (simp add: numeral_3_eq_3)
qed

lemma connect_client_events:
  "snd (connect_client T mac h) =
     snd (resolve_ble_device T mac h) @
     (case fst (resolve_ble_device T mac h) of
        Inl e \<Rightarrow> []
      | Inr d \<Rightarrow> snd (establish_connection T d 3 (h @ snd (resolve_ble_device T mac h))))"
  by (simp add: connect_client_def case_prod_unfold split: sum.splits)

text \<open>
  C6 (as amended): the connect operation resolves the device once per call. Its events are
  those of one resolution (one lookup, at most one scan, so the resolver retries nothing)
  followed, when a device was resolved, by one to three connection tries, all on that
  device; no resolution happens between two tries.
\<close>

theorem connect_client_resolves_once:
  "\<exists>k. snd (connect_client T mac h) =
          snd (resolve_ble_device T mac h) @
          (case fst (resolve_ble_device T mac h) of
             Inl e \<Rightarrow> []
           | Inr d \<Rightarrow> replicate (Suc k) (ConnectTry d)) \<and>
        k < 3 \<and>
        (snd (resolve_ble_device T mac h) = [FindDeviceByAddress mac] \<or>
         snd (resolve_ble_device T mac h) = [FindDeviceByAddress mac, Discover])"
proof (cases "fst (resolve_ble_device T mac h)")
  case (Inl e)
  then have "snd (connect_client T mac h) =
     snd (resolve_ble_device T mac h) @
     (case fst (resolve_ble_device T mac h) of
        Inl e \<Rightarrow> []
      | Inr d \<Rightarrow> replicate (Suc 0) (ConnectTry d))"
    by (simp add: connect_client_events)
  moreover have "(0::nat) < 3" by simp
  ultimately show ?thesis using resolve_ble_device_events [of T mac h] by blast
next
  case (Inr d)
  from establish_connection_events [of T d "h @ snd (resolve_ble_device T mac h)"]
  obtain k where
    k: "snd (establish_connection T d 3 (h @ snd (resolve_ble_device T mac h))) =
          replicate k (ConnectTry d)" "0 < k" "k \<le> 3"
    by blast
  then obtain k' where k': "k = Suc k'" "k' < 3"
    by (cases k) simp_all
  with k Inr have "snd (connect_client T mac h) =
     snd (resolve_ble_device T mac h) @
     (case fst (resolve_ble_device T mac h) of
        Inl e \<Rightarrow> []
      | Inr d \<Rightarrow> replicate (Suc k') (ConnectTry d))"
    by (simp add: connect_client_events)
  with k' resolve_ble_device_events [of T mac h] show ?thesis by blast
qed

lemma resolve_ble_device_no_write:
  "WriteGattChar p x \<notin> set (snd (resolve_ble_device T mac h))"
  using resolve_ble_device_events [of T mac h] by auto

lemma connect_client_no_write:
  "WriteGattChar p x \<notin> set (snd (connect_client T mac h))"
proof (cases "fst (resolve_ble_device T mac h)")
  case (Inl e)
  then show ?thesis by (simp add: connect_client_events resolve_ble_device_no_write)
next
  case (Inr d)
  from establish_connection_events [of T d "h @ snd (resolve_ble_device T mac h)"]
  obtain k where
    "snd (establish_connection T d 3 (h @ snd (resolve_ble_device T mac h))) =
       replicate k (ConnectTry d)" by blast
  with Inr show ?thesis by (simp add: connect_client_events resolve_ble_device_no_write)
qed

lemma connect_client_no_disconnect:
  "disconnects (snd (connect_client T mac h)) = []"
proof (cases "fst (resolve_ble_device T mac h)")
  case (Inl e)
  with resolve_ble_device_events [of T mac h] show ?thesis
    by (auto simp: connect_client_events disconnects_def)
next
  case (Inr d)
  from establish_connection_events [of T d "h @ snd (resolve_ble_device T mac h)"]
  obtain k where
    "snd (establish_connection T d 3 (h @ snd (resolve_ble_device T mac h))) =
       replicate k (ConnectTry d)" by blast
  with Inr resolve_ble_device_events [of T mac h] show ?thesis
    by (auto simp: connect_client_events disconnects_def)
qed

lemma connect_error_message:
  "connect_error x =
     APIConnectionError
       (if x = BleakOutOfConnectionSlotsError
        then ''Bluetooth adapter/proxy out of connection slots or device busy/unreachable''
        else if x = BleakDBusError \<or> x = TimeoutError \<or> x = OSError
        then ''Timeout connecting to device''
        else ''Unexpected BLE connection error'')"
  by (cases x) simp_all

text \<open>
  What the connector raises is wrapped, whatever it is; what the scanner raises during the
  resolution is not.
\<close>

lemma connect_client_classified:
  "resolve_ble_device T mac h = (Inr d, evs) \<Longrightarrow>
   fst (establish_connection T d 3 (h @ evs)) = Inl x \<Longrightarrow>
   fst (connect_client T mac h) = Inl (connect_error x)"
  by (simp add: connect_client_def case_prod_unfold split: sum.splits)

lemma connect_client_scanner_raises:
  "find_device_by_address T h mac = Inl x \<Longrightarrow>
   connect_client T mac h = (Inl x, [FindDeviceByAddress mac])"
  by (simp add: connect_client_def resolve_ble_device_def)

lemma connect_client_error:
  "fst (connect_client T mac h) = Inl e \<Longrightarrow>
     (\<exists>m. e = APIConnectionError m) \<or>
     find_device_by_address T h mac = Inl e \<or>
     discover T (h @ [FindDeviceByAddress mac]) = Inl e"
proof (cases "fst (resolve_ble_device T mac h)")
  case (Inl e')
  assume "fst (connect_client T mac h) = Inl e"
  with Inl have "e = e'" by (simp add: connect_client_def case_prod_unfold)
  with Inl resolve_ble_device_error [of T mac h e'] show ?thesis by blast
next
  case (Inr d)
  assume "fst (connect_client T mac h) = Inl e"
  with Inr obtain x where "e = connect_error x"
    by (auto simp: connect_client_def case_prod_unfold split: sum.splits)
  then show ?thesis by (cases x) simp_all
qed

lemma write_and_commit_connect_failure:
  "fst (connect_client T mac h) = Inl e \<Longrightarrow>
   write_and_commit T mac command h = (Inl e, snd (connect_client T mac h))"
  by (cases "connect_client T mac h") (simp add: write_and_commit_def)

lemma connect_failure_no_write:
  "fst (connect_client T mac h) = Inl e \<Longrightarrow>
   WriteGattChar p x \<notin> set (snd (write_and_commit T mac command h))"
  by (simp add: write_and_commit_connect_failure connect_client_no_write)

lemma scan_match_skips_absent_address:
  "mac \<noteq> [] \<Longrightarrow> scan_match mac ds = scan_match mac (filter (\<lambda>d. address d \<noteq> None) ds)"
  by (induction ds) (auto simp: address_or_empty_def lower_Nil_iff split: option.splits)

text \<open>
  C10 (as amended): for a non-empty configured address, a discovered device without an
  address is passed over by the scan like any other non-match: the scan gives the same
  result with and without such devices. The comparison itself never fails: an error of a
  resolution is the device-not-found error, or what the scanner raised in the lookup or in
  the scan.
\<close>

theorem absent_address_is_no_match:
  "mac \<noteq> [] \<Longrightarrow>
     (address d = None \<longrightarrow> scan_match mac (d # ds) = scan_match mac ds) \<and>
     scan_match mac ds = scan_match mac (filter (\<lambda>d. address d \<noteq> None) ds) \<and>
     (\<forall>e. fst (resolve_ble_device T mac h) = Inl e \<longrightarrow>
          e = APIConnectionError ''Device not found! Failed connecting!'' \<or>
          find_device_by_address T h mac = Inl e \<or>
          discover T (h @ [FindDeviceByAddress mac]) = Inl e)"
proof (intro conjI allI impI)
  assume m: "mac \<noteq> []"
  then show "scan_match mac ds = scan_match mac (filter (\<lambda>d. address d \<noteq> None) ds)"
    by (rule scan_match_skips_absent_address)
  show "e = APIConnectionError ''Device not found! Failed connecting!'' \<or>
        find_device_by_address T h mac = Inl e \<or>
        discover T (h @ [FindDeviceByAddress mac]) = Inl e"
    if "fst (resolve_ble_device T mac h) = Inl e" for e
    using that by (rule resolve_ble_device_error)
  assume "address d = None"
  with m show "scan_match mac (d # ds) = scan_match mac ds"
    by (simp add: address_or_empty_def lower_Nil_iff)
qed

section \<open>The write pipeline\<close>

lemma append_split_later:
  "xs @ ys = pre @ e # post \<Longrightarrow> e \<notin> set xs \<Longrightarrow> \<exists>m. pre = xs @ m \<and> ys = m @ e # post"
proof (induction xs arbitrary: pre)
  case Nil
  then show ?case by simp
next
  case (Cons a xs)
  show ?case
  proof (cases pre)
    case Nil
    with Cons.prems show ?thesis by simp
  next
    case (Cons b pre')
    with Cons.prems have "xs @ ys = pre' @ e # post" "e \<notin> set xs" "a = b" by simp_all
    with Cons.IH [of pre'] Cons show ?thesis by simp
  qed
qed

lemma snoc_split_earlier:
  "bs @ [z] = m @ e # post \<Longrightarrow> e \<noteq> z \<Longrightarrow> \<exists>post'. bs = m @ e # post'"
  by (cases post rule: rev_cases) auto

lemma write_attempt_payload:
  "WriteGattChar q x \<in> set (snd (write_attempt T p h)) \<Longrightarrow> q = p"
  by (auto simp: write_attempt_def Let_def split: if_splits option.splits)

lemma write_attempt_success:
  "fst (write_attempt T p h) = Inr u \<Longrightarrow> WriteGattChar p None \<in> set (snd (write_attempt T p h))"
  by (auto simp: write_attempt_def Let_def split: if_splits option.splits)

lemma write_attempt_no_disconnect:
  "disconnects (snd (write_attempt T p h)) = []"
  by (auto simp: write_attempt_def Let_def disconnects_def split: if_splits option.splits)

lemma retrying_payload:
  "WriteGattChar q x \<in> set (snd (retrying n k T p h)) \<Longrightarrow> q = p"
proof (induction n arbitrary: k h)
  case 0
  then show ?case
    by (auto simp: case_prod_unfold split: sum.splits dest: write_attempt_payload)
next
  case (Suc n)
  then show ?case
    by (auto simp: case_prod_unfold split: sum.splits dest: write_attempt_payload)
qed

lemma retrying_success:
  "fst (retrying n k T p h) = Inr u \<Longrightarrow> WriteGattChar p None \<in> set (snd (retrying n k T p h))"
proof (induction n arbitrary: k h)
  case 0
  then show ?case
    by (auto simp: case_prod_unfold split: sum.splits dest: write_attempt_success)
next
  case (Suc n)
  then show ?case
    by (auto simp: case_prod_unfold split: sum.splits dest: write_attempt_success)
qed

lemma retrying_no_disconnect:
  "disconnects (snd (retrying n k T p h)) = []"
proof (induction n arbitrary: k h)
  case 0
  then show ?case
    using write_attempt_no_disconnect [of T p h]
    by (auto simp: case_prod_unfold disconnects_def split: sum.splits)
next
  case (Suc n)
  then show ?case
    using write_attempt_no_disconnect [of T p h]
    by (auto simp: case_prod_unfold disconnects_def split: sum.splits)
qed

lemma commit_command_frame: "commit_command = Inr [0x3B, 0x00]"
  by (simp add: commit_command_def)

lemma write_and_commit_body_events:
  "snd (write_and_commit_body T command h) =
     (if \<not> is_connected T h then [IsConnected False]
      else IsConnected True # snd (write_with_auth_retry T command (h @ [IsConnected True])) @
           (case fst (write_with_auth_retry T command (h @ [IsConnected True])) of
              Inl e \<Rightarrow> []
            | Inr u \<Rightarrow> snd (write_with_auth_retry T [0x3B, 0x00]
                 (h @ IsConnected True #
                    snd (write_with_auth_retry T command (h @ [IsConnected True]))))))"
  by (simp add: write_and_commit_body_def commit_command_frame Let_def case_prod_unfold
           split: sum.splits)

lemma write_and_commit_body_payloads:
  "WriteGattChar p x \<in> set (snd (write_and_commit_body T command h)) \<Longrightarrow>
     p = command \<or> p = [0x3B, 0x00]"
  by (auto simp: write_and_commit_body_events write_with_auth_retry_def
           split: if_splits sum.splits dest: retrying_payload)

lemma write_and_commit_body_no_disconnect:
  "disconnects (snd (write_and_commit_body T command h)) = []"
  using retrying_no_disconnect [of 2 1 T]
  by (auto simp: write_and_commit_body_events write_with_auth_retry_def disconnects_def
           split: sum.splits)

lemma write_and_commit_body_commit_later:
  assumes neq: "command \<noteq> [0x3B, 0x00]"
    and ev: "snd (write_and_commit_body T command h) = pre @ WriteGattChar [0x3B, 0x00] x # post"
  shows "WriteGattChar command None \<in> set pre"
proof -
  let ?W = "WriteGattChar [0x3B, 0x00] x"
  let ?evs1 = "snd (write_with_auth_retry T command (h @ [IsConnected True]))"
  have in_set: "?W \<in> set (snd (write_and_commit_body T command h))"
    using ev by simp
  have notin1: "?W \<notin> set (IsConnected True # ?evs1)"
    using neq retrying_payload [of "[0x3B, 0x00]" x 2 1 T command]
    by (auto simp: write_with_auth_retry_def)
  show ?thesis
  proof (cases "is_connected T h")
    case False
    with in_set show ?thesis by (simp add: write_and_commit_body_events)
  next
    case True
    show ?thesis
    proof (cases "fst (write_with_auth_retry T command (h @ [IsConnected True]))")
      case (Inl e)
      with True in_set notin1 show ?thesis by (simp add: write_and_commit_body_events)
    next
      case (Inr u)
      then have ok: "WriteGattChar command None \<in> set ?evs1"
        by (simp add: write_with_auth_retry_def retrying_success)
      from True Inr ev have
        "(IsConnected True # ?evs1) @
           snd (write_with_auth_retry T [0x3B, 0x00] (h @ IsConnected True # ?evs1)) =
         pre @ ?W # post"
        by (simp add: write_and_commit_body_events)
      from append_split_later [OF this notin1] obtain m where
        "pre = (IsConnected True # ?evs1) @ m" by blast
      with ok show ?thesis by simp
    qed
  qed
qed

lemma write_and_commit_connected:
  assumes "connect_client T mac h = (Inr cl, cevs)"
  shows "write_and_commit T mac command h =
     (fst (write_and_commit_body T command (h @ cevs)),
      cevs @ snd (write_and_commit_body T command (h @ cevs)) @
        [Disconnect (disconnect T (h @ cevs @ snd (write_and_commit_body T command (h @ cevs))))])"
  using assms
  by (simp add: write_and_commit_def try_finally_def disconnect_quietly_def case_prod_unfold
           split: option.splits)

lemma write_and_commit_failed:
  assumes "connect_client T mac h = (Inl e, cevs)"
  shows "write_and_commit T mac command h = (Inl e, cevs)"
  using assms by (simp add: write_and_commit_def)

text \<open>
  C3: the commit frame is the two bytes \<open>0x3B, 0x00\<close>. In the events of any
  write-and-commit call, every GATT write carries the command or the commit frame, and
  wherever a write of the commit frame occurs, a write of the command that returned
  without raising occurs before it: the commit is written only after, and only if, the
  primary write succeeded.
\<close>

theorem commit_only_after_primary_success:
  assumes run: "write_and_commit T mac command h = (r, evs)"
    and neq: "command \<noteq> [0x3B, 0x00]"
  shows "commit_command = Inr [0x3B, 0x00] \<and>
     (\<forall>p x. WriteGattChar p x \<in> set evs \<longrightarrow> p = command \<or> p = [0x3B, 0x00]) \<and>
     (\<forall>pre x post. evs = pre @ WriteGattChar [0x3B, 0x00] x # post \<longrightarrow>
         WriteGattChar command None \<in> set pre)"
proof (cases "connect_client T mac h")
  case (Pair cr cevs)
  show ?thesis
  proof (cases cr)
    case (Inl e)
    with Pair run have "evs = cevs" by (simp add: write_and_commit_failed)
    moreover from Pair have "\<And>p x. WriteGattChar p x \<notin> set cevs"
      using connect_client_no_write [of _ _ T mac h] by simp
    ultimately have nw: "\<And>p x. WriteGattChar p x \<notin> set evs" by simp
    have "evs \<noteq> pre @ WriteGattChar [0x3B, 0x00] x # post" for pre x post
    proof
      assume "evs = pre @ WriteGattChar [0x3B, 0x00] x # post"
      then have "WriteGattChar [0x3B, 0x00] x \<in> set evs" by simp
      with nw show False by blast
    qed
    with nw show ?thesis by (simp add: commit_command_frame)
  next
    case (Inr cl)
    let ?bevs = "snd (write_and_commit_body T command (h @ cevs))"
    let ?d = "Disconnect (disconnect T (h @ cevs @ ?bevs))"
    from Pair Inr run have evs: "evs = cevs @ ?bevs @ [?d]"
      by (simp add: write_and_commit_connected)
    from Pair have nw: "\<And>p x. WriteGattChar p x \<notin> set cevs"
      using connect_client_no_write [of _ _ T mac h] by simp
    have payloads: "\<forall>p x. WriteGattChar p x \<in> set evs \<longrightarrow> p = command \<or> p = [0x3B, 0x00]"
      using evs nw write_and_commit_body_payloads [of _ _ T command "h @ cevs"] by auto
    have order: "WriteGattChar command None \<in> set pre"
      if split: "evs = pre @ WriteGattChar [0x3B, 0x00] x # post" for pre x post
    proof -
      from split evs have "cevs @ (?bevs @ [?d]) = pre @ WriteGattChar [0x3B, 0x00] x # post"
        by simp
      from append_split_later [OF this nw] obtain m where
        m: "pre = cevs @ m" "?bevs @ [?d] = m @ WriteGattChar [0x3B, 0x00] x # post" by blast
      from snoc_split_earlier [OF m(2)] obtain post' where
        "?bevs = m @ WriteGattChar [0x3B, 0x00] x # post'" by auto
      from write_and_commit_body_commit_later [OF neq this] m(1) show ?thesis by simp
    qed
    from payloads order show ?thesis by (simp add: commit_command_frame)
  qed
qed

subsection \<open>Cleanup\<close>

text \<open>Nothing before the cleanup step consults the \<open>disconnect\<close> operation.\<close>

lemma resolve_ble_device_ignores_disconnect:
  "resolve_ble_device (T\<lparr>disconnect := g\<rparr>) mac h = resolve_ble_device T mac h"
  by (simp add: resolve_ble_device_def split: option.splits sum.splits)

lemma establish_tries_ignores_disconnect:
  "establish_tries n (T\<lparr>disconnect := g\<rparr>) d h = establish_tries n T d h"
  by (induction n arbitrary: h) (simp_all split: try_outcome.splits)

lemma connect_client_ignores_disconnect:
  "connect_client (T\<lparr>disconnect := g\<rparr>) mac h = connect_client T mac h"
  by (simp add: connect_client_def resolve_ble_device_ignores_disconnect
        establish_connection_def establish_tries_ignores_disconnect
      split: prod.splits sum.splits)

lemma write_attempt_ignores_disconnect:
  "write_attempt (T\<lparr>disconnect := g\<rparr>) p h = write_attempt T p h"
  by (simp add: write_attempt_def Let_def)

lemma retrying_ignores_disconnect:
  "retrying n k (T\<lparr>disconnect := g\<rparr>) p h = retrying n k T p h"
  by (induction n arbitrary: k h)
     (simp_all add: write_attempt_ignores_disconnect split: prod.splits sum.splits)

lemma write_and_commit_body_ignores_disconnect:
  "write_and_commit_body (T\<lparr>disconnect := g\<rparr>) command h = write_and_commit_body T command h"
  by (simp add: write_and_commit_body_def write_with_auth_retry_def retrying_ignores_disconnect
        Let_def commit_command_frame case_prod_unfold split: sum.splits)

lemma list_characteristics_body_ignores_disconnect:
  "list_characteristics_body (T\<lparr>disconnect := g\<rparr>) h = list_characteristics_body T h"
  by (simp add: list_characteristics_body_def Let_def split: option.splits sum.splits)

lemma list_characteristics_body_no_disconnect:
  "disconnects (snd (list_characteristics_body T h)) = []"
  by (auto simp: list_characteristics_body_def Let_def disconnects_def
           split: option.splits sum.splits)

lemma list_characteristics_connected:
  assumes "connect_client T mac h = (Inr cl, cevs)"
  shows "list_characteristics T mac h =
     (fst (list_characteristics_body T (h @ cevs)),
      cevs @ snd (list_characteristics_body T (h @ cevs)) @
        [Disconnect (disconnect T (h @ cevs @ snd (list_characteristics_body T (h @ cevs))))])"
  using assms
  by (simp add: list_characteristics_def try_finally_def disconnect_quietly_def case_prod_unfold
           split: option.splits)

lemma disconnects_append: "disconnects (xs @ ys) = disconnects xs @ disconnects ys"
  by (simp add: disconnects_def)

text \<open>
  C7 (as amended): once the connection is established, a write-and-commit call and a
  topology call end with exactly one disconnect, as their last event, whatever the body
  did. Their result is the result of the body: it is the same for every behaviour of
  \<open>disconnect\<close>, a raising one included.
\<close>

theorem disconnect_once_after_connect:
  assumes conn: "fst (connect_client T mac h) = Inr cl"
  shows
    "(\<exists>evs d. snd (write_and_commit T mac command h) = evs @ [Disconnect d] \<and>
              disconnects evs = []) \<and>
     fst (write_and_commit T mac command h) =
       fst (write_and_commit_body T command (h @ snd (connect_client T mac h))) \<and>
     fst (write_and_commit (T\<lparr>disconnect := g\<rparr>) mac command h) =
       fst (write_and_commit T mac command h) \<and>
     (\<exists>evs d. snd (list_characteristics T mac h) = evs @ [Disconnect d] \<and>
              disconnects evs = []) \<and>
     fst (list_characteristics T mac h) =
       fst (list_characteristics_body T (h @ snd (connect_client T mac h))) \<and>
     fst (list_characteristics (T\<lparr>disconnect := g\<rparr>) mac h) =
       fst (list_characteristics T mac h)"
proof -
  obtain cevs where c: "connect_client T mac h = (Inr cl, cevs)"
    using conn by (cases "connect_client T mac h") simp
  then have c': "connect_client (T\<lparr>disconnect := g\<rparr>) mac h = (Inr cl, cevs)"
    by (simp add: connect_client_ignores_disconnect)
  have nd: "disconnects cevs = []"
    using connect_client_no_disconnect [of T mac h] c by simp
  let ?w = "snd (write_and_commit_body T command (h @ cevs))"
  let ?l = "snd (list_characteristics_body T (h @ cevs))"
  have w1: "snd (write_and_commit T mac command h) =
      (cevs @ ?w) @ [Disconnect (disconnect T (h @ cevs @ ?w))]"
    by (simp add: write_and_commit_connected [OF c])
  have w2: "disconnects (cevs @ ?w) = []"
    by (simp add: disconnects_append nd write_and_commit_body_no_disconnect)
  have l1: "snd (list_characteristics T mac h) =
      (cevs @ ?l) @ [Disconnect (disconnect T (h @ cevs @ ?l))]"
    by (simp add: list_characteristics_connected [OF c])
  have l2: "disconnects (cevs @ ?l) = []"
    by (simp add: disconnects_append nd list_characteristics_body_no_disconnect)
  have w3: "fst (write_and_commit T mac command h) =
       fst (write_and_commit_body T command (h @ snd (connect_client T mac h)))"
    by (simp add: write_and_commit_connected [OF c] c)
  have w4: "fst (write_and_commit (T\<lparr>disconnect := g\<rparr>) mac command h) =
       fst (write_and_commit T mac command h)"
    by (simp add: write_and_commit_connected [OF c] write_and_commit_connected [OF c']
          write_and_commit_body_ignores_disconnect)
  have l3: "fst (list_characteristics T mac h) =
       fst (list_characteristics_body T (h @ snd (connect_client T mac h)))"
    by (simp add: list_characteristics_connected [OF c] c)
  have l4: "fst (list_characteristics (T\<lparr>disconnect := g\<rparr>) mac h) =
       fst (list_characteristics T mac h)"
    by (simp add: list_characteristics_connected [OF c] list_characteristics_connected [OF c']
          list_characteristics_body_ignores_disconnect)
  from w1 w2 have "\<exists>evs d. snd (write_and_commit T mac command h) = evs @ [Disconnect d] \<and>
              disconnects evs = []" by blast
  moreover from l1 l2 have "\<exists>evs d. snd (list_characteristics T mac h) = evs @ [Disconnect d] \<and>
              disconnects evs = []" by blast
  ultimately show ?thesis using w3 w4 l3 l4 by blast
qed

subsection \<open>The connected check and the retry policy\<close>

lemma wait_exponential_1: "wait_exponential 1 = 400"
  by (simp add: wait_exponential_def)

lemma wait_exponential_2: "wait_exponential 2 = 800"
  by (simp add: wait_exponential_def)

lemma write_attempt_disconnected:
  "\<not> is_connected T h \<Longrightarrow>
     write_attempt T p h = (Inl (APIConnectionError ''Client not connected''), [IsConnected False])"
  by (simp add: write_attempt_def)

lemma write_attempt_connected:
  "is_connected T h \<Longrightarrow>
     write_attempt T p h =
       (case write_gatt_char T (h @ [IsConnected True]) p of
          None \<Rightarrow> (Inr (), [IsConnected True, WriteGattChar p None])
        | Some e \<Rightarrow> (Inl e, [IsConnected True, WriteGattChar p (Some e)]))"
  by (simp add: write_attempt_def)

lemma retrying_2:
  "retrying 2 k T p h =
     (case write_attempt T p h of
        (Inr u, evs) \<Rightarrow> (Inr u, evs)
      | (Inl e, evs) \<Rightarrow>
          (case retrying (Suc 0) (Suc k) T p (h @ evs @ [Sleep (wait_exponential k)]) of
             (r, evs') \<Rightarrow> (r, evs @ Sleep (wait_exponential k) # evs')))"
  using retrying.simps(2) [of "Suc 0" k T p h] by (simp add: numeral_2_eq_2)

text \<open>
  The connected check that opens the body of \<^verbatim>\<open>_write_and_commit\<close> is outside the
  retrying write and fails at once. The connected check inside the retrying write is part
  of each attempt: an attempt that finds the handle disconnected writes nothing and is
  retried after the backoff like any other failed attempt, and when the third check fails
  too the caller gets tenacity's \<^verbatim>\<open>RetryError\<close> around the
  \<^verbatim>\<open>APIConnectionError\<close> of that check.
\<close>

lemma write_and_commit_body_disconnected:
  "\<not> is_connected T h \<Longrightarrow>
     write_and_commit_body T command h =
       (Inl (APIConnectionError ''Failed connecting!''), [IsConnected False])"
  by (simp add: write_and_commit_body_def)

lemma write_with_auth_retry_disconnected:
  "\<not> is_connected T h \<Longrightarrow>
   \<not> is_connected T (h @ [IsConnected False, Sleep 400]) \<Longrightarrow>
   \<not> is_connected T (h @ [IsConnected False, Sleep 400, IsConnected False, Sleep 800]) \<Longrightarrow>
     write_with_auth_retry T payload h =
       (Inl (RetryError (APIConnectionError ''Client not connected'')),
        [IsConnected False, Sleep 400, IsConnected False, Sleep 800, IsConnected False])"
  by (simp add: write_with_auth_retry_def retrying_2 write_attempt_disconnected
        wait_exponential_def)

lemma write_with_auth_retry_reconnected:
  "\<not> is_connected T h \<Longrightarrow>
   is_connected T (h @ [IsConnected False, Sleep 400]) \<Longrightarrow>
   write_gatt_char T (h @ [IsConnected False, Sleep 400, IsConnected True]) payload = None \<Longrightarrow>
     write_with_auth_retry T payload h =
       (Inr (), [IsConnected False, Sleep 400, IsConnected True, WriteGattChar payload None])"
  by (simp add: write_with_auth_retry_def retrying_2 write_attempt_disconnected
        write_attempt_connected wait_exponential_def)

section \<open>Concrete runs\<close>

lemmas stack_defs =
  steady_stack_def scanning_stack_def empty_stack_def nameless_stack_def flaky_connect_stack_def
  out_of_slots_stack_def dropped_stack_def dropping_stack_def scanner_down_stack_def
  connector_down_stack_def flaky_write_stack_def
  solem_device_def other_device_def nameless_device_def

lemmas run_defs =
  write_and_commit_def list_characteristics_def connect_client_def resolve_ble_device_def
  establish_connection_def numeral_2_eq_2 try_finally_def disconnect_quietly_def
  write_and_commit_body_def list_characteristics_body_def write_with_auth_retry_def retrying_2
  run_command_def turn_on_def turn_on_frame
  write_attempt_def commit_command_frame wait_exponential_def address_or_empty_def lower_def
  lower_char_def disconnects_def Let_def

text \<open>
  C3 at a run whose first GATT write raises: the command is written again after the
  backoff, succeeds, and only then is the commit frame written.
\<close>

theorem commit_only_after_primary_success_witness:
  "write_and_commit flaky_write_stack ''aa:bb:cc:dd:ee:ff''
       [0x31, 0x05, 0x22, 3, 0, 15, 0xFF, 0xFF] [] =
     (Inr (),
      [FindDeviceByAddress ''aa:bb:cc:dd:ee:ff'', ConnectTry solem_device, IsConnected True,
       IsConnected True, WriteGattChar [0x31, 0x05, 0x22, 3, 0, 15, 0xFF, 0xFF] (Some OSError),
       Sleep 400, IsConnected True, WriteGattChar [0x31, 0x05, 0x22, 3, 0, 15, 0xFF, 0xFF] None,
       IsConnected True] @ WriteGattChar [0x3B, 0x00] None # [Disconnect (Some OSError)]) \<and>
   [0x31, 0x05, 0x22, 3, 0, 15, 0xFF, 0xFF] \<noteq> [0x3B, 0x00 :: byte] \<and>
   WriteGattChar [0x31, 0x05, 0x22, 3, 0, 15, 0xFF, 0xFF] None \<in>
     set [FindDeviceByAddress ''aa:bb:cc:dd:ee:ff'', ConnectTry solem_device, IsConnected True,
       IsConnected True, WriteGattChar [0x31, 0x05, 0x22, 3, 0, 15, 0xFF, 0xFF] (Some OSError),
       Sleep 400, IsConnected True, WriteGattChar [0x31, 0x05, 0x22, 3, 0, 15, 0xFF, 0xFF] None,
       IsConnected True]"
proof -
  let ?cmd = "[0x31, 0x05, 0x22, 3, 0, 15, 0xFF, 0xFF] :: byte list"
  let ?pre = "[FindDeviceByAddress ''aa:bb:cc:dd:ee:ff'', ConnectTry solem_device,
       IsConnected True, IsConnected True, WriteGattChar ?cmd (Some OSError),
       Sleep 400, IsConnected True, WriteGattChar ?cmd None, IsConnected True]"
  have run: "write_and_commit flaky_write_stack ''aa:bb:cc:dd:ee:ff'' ?cmd [] =
     (Inr (), ?pre @ WriteGattChar [0x3B, 0x00] None # [Disconnect (Some OSError)])"
    by (simp add: run_defs flaky_write_stack_def steady_stack_def)
  have neq: "?cmd \<noteq> [0x3B, 0x00]" by simp
  from commit_only_after_primary_success [OF run neq]
  have "WriteGattChar ?cmd None \<in> set ?pre" by blast
  with run neq show ?thesis by blast
qed

text \<open>
  C4: a write on a handle that is not connected at write time fails at once with
  \<^verbatim>\<open>APIConnectionError\<close> and without a retry. On the code it does not: the
  connected check is inside the function that tenacity retries, so a handle that is never
  connected is checked three times with two backoff waits between the checks, and a
  \<^verbatim>\<open>turn_on\<close> whose connection drops right after the opening check of
  \<^verbatim>\<open>_write_and_commit\<close> takes the same three checks; in both runs the caller gets
  \<^verbatim>\<open>RetryError\<close>, not \<^verbatim>\<open>APIConnectionError\<close>.
\<close>

theorem write_not_connected_retried_RetryError:
  "write_with_auth_retry dropped_stack [0x31, 0x05, 0x12, 0xFF, 0x00, 0xFF, 0xFF] [] =
     (Inl (RetryError (APIConnectionError ''Client not connected'')),
      [IsConnected False, Sleep 400, IsConnected False, Sleep 800, IsConnected False]) \<and>
   turn_on dropping_stack ''aa:bb:cc:dd:ee:ff'' [] =
     (Inl (RetryError (APIConnectionError ''Client not connected'')),
      [FindDeviceByAddress ''aa:bb:cc:dd:ee:ff'', ConnectTry solem_device, IsConnected True,
       IsConnected False, Sleep 400, IsConnected False, Sleep 800, IsConnected False,
       Disconnect None])"
  by (simp add: run_defs dropped_stack_def dropping_stack_def steady_stack_def)

text \<open>C5 on a stack that finds the device by address and on one that needs the scan.\<close>

theorem resolve_ble_device_fast_path_then_scan_witness:
  "find_device_by_address steady_stack [] ''aa:bb:cc:dd:ee:ff'' = Inr (Some solem_device) \<and>
   resolve_ble_device steady_stack ''aa:bb:cc:dd:ee:ff'' [] =
     (Inr solem_device, [FindDeviceByAddress ''aa:bb:cc:dd:ee:ff'']) \<and>
   find_device_by_address scanning_stack [] ''aa:bb:cc:dd:ee:ff'' = Inr None \<and>
   snd (resolve_ble_device scanning_stack ''aa:bb:cc:dd:ee:ff'' []) =
     [FindDeviceByAddress ''aa:bb:cc:dd:ee:ff'', Discover] \<and>
   fst (resolve_ble_device scanning_stack ''aa:bb:cc:dd:ee:ff'' []) = Inr solem_device"
proof -
  have f: "find_device_by_address steady_stack [] ''aa:bb:cc:dd:ee:ff'' = Inr (Some solem_device)"
    by (simp add: steady_stack_def)
  have n: "find_device_by_address scanning_stack [] ''aa:bb:cc:dd:ee:ff'' = Inr None"
    by (simp add: scanning_stack_def steady_stack_def)
  from f resolve_ble_device_fast_path_then_scan
         [of steady_stack "[]" "''aa:bb:cc:dd:ee:ff''" solem_device]
  have a: "resolve_ble_device steady_stack ''aa:bb:cc:dd:ee:ff'' [] =
     (Inr solem_device, [FindDeviceByAddress ''aa:bb:cc:dd:ee:ff''])" by blast
  from n resolve_ble_device_fast_path_then_scan
         [of scanning_stack "[]" "''aa:bb:cc:dd:ee:ff''" solem_device]
  have b: "snd (resolve_ble_device scanning_stack ''aa:bb:cc:dd:ee:ff'' []) =
     [FindDeviceByAddress ''aa:bb:cc:dd:ee:ff'', Discover]" by blast
  have c: "fst (resolve_ble_device scanning_stack ''aa:bb:cc:dd:ee:ff'' []) = Inr solem_device"
    by (simp add: run_defs stack_defs)
  from f n a b c show ?thesis by blast
qed

text \<open>
  C6 as stated fails when the connector needs three tries: one lookup is followed by three
  tries, with no resolution before the second and the third.
\<close>

theorem resolution_per_try_counterexample:
  "snd (connect_client flaky_connect_stack ''aa:bb:cc:dd:ee:ff'' []) =
     [FindDeviceByAddress ''aa:bb:cc:dd:ee:ff'',
      ConnectTry solem_device, ConnectTry solem_device, ConnectTry solem_device]"
  by (simp add: run_defs flaky_connect_stack_def steady_stack_def)

text \<open>C6 as amended, on that same stack.\<close>

theorem connect_client_resolves_once_witness:
  "fst (resolve_ble_device flaky_connect_stack ''aa:bb:cc:dd:ee:ff'' []) = Inr solem_device \<and>
   snd (resolve_ble_device flaky_connect_stack ''aa:bb:cc:dd:ee:ff'' []) =
     [FindDeviceByAddress ''aa:bb:cc:dd:ee:ff''] \<and>
   snd (connect_client flaky_connect_stack ''aa:bb:cc:dd:ee:ff'' []) =
     snd (resolve_ble_device flaky_connect_stack ''aa:bb:cc:dd:ee:ff'' []) @
     replicate (Suc 2) (ConnectTry solem_device)"
proof -
  have r: "fst (resolve_ble_device flaky_connect_stack ''aa:bb:cc:dd:ee:ff'' []) =
      Inr solem_device"
    "snd (resolve_ble_device flaky_connect_stack ''aa:bb:cc:dd:ee:ff'' []) =
      [FindDeviceByAddress ''aa:bb:cc:dd:ee:ff'']"
    by (simp_all add: run_defs flaky_connect_stack_def steady_stack_def)
  have c: "snd (connect_client flaky_connect_stack ''aa:bb:cc:dd:ee:ff'' []) =
     [FindDeviceByAddress ''aa:bb:cc:dd:ee:ff'',
      ConnectTry solem_device, ConnectTry solem_device, ConnectTry solem_device]"
    by (simp add: run_defs flaky_connect_stack_def steady_stack_def)
  from connect_client_resolves_once [of flaky_connect_stack "''aa:bb:cc:dd:ee:ff''" "[]"]
  obtain k where k:
    "snd (connect_client flaky_connect_stack ''aa:bb:cc:dd:ee:ff'' []) =
       snd (resolve_ble_device flaky_connect_stack ''aa:bb:cc:dd:ee:ff'' []) @
       (case fst (resolve_ble_device flaky_connect_stack ''aa:bb:cc:dd:ee:ff'' []) of
          Inl e \<Rightarrow> []
        | Inr d \<Rightarrow> replicate (Suc k) (ConnectTry d))"
    by blast
  with r c have
    "[ConnectTry solem_device, ConnectTry solem_device, ConnectTry solem_device] =
       replicate (Suc k) (ConnectTry solem_device)"
    by simp
  then have "length [ConnectTry solem_device, ConnectTry solem_device, ConnectTry solem_device] =
       length (replicate (Suc k) (ConnectTry solem_device))"
    by (rule arg_cong)
  then have "k = 2" by simp
  with k r show ?thesis by simp
qed

text \<open>
  C7 as stated fails on the exit path of a failed connect: the device is not found, the
  call raises, and no disconnect is attempted.
\<close>

theorem disconnect_without_connection_counterexample:
  "write_and_commit empty_stack ''aa:bb:cc:dd:ee:ff'' [0x31, 0x05, 0x12, 0xFF, 0x00, 0xFF, 0xFF] [] =
     (Inl (APIConnectionError ''Device not found! Failed connecting!''),
      [FindDeviceByAddress ''aa:bb:cc:dd:ee:ff'', Discover]) \<and>
   disconnects (snd (write_and_commit empty_stack ''aa:bb:cc:dd:ee:ff''
       [0x31, 0x05, 0x12, 0xFF, 0x00, 0xFF, 0xFF] [])) = [] \<and>
   disconnects (snd (list_characteristics empty_stack ''aa:bb:cc:dd:ee:ff'' [])) = []"
  by (simp add: run_defs empty_stack_def steady_stack_def)

text \<open>
  C7 as amended, on a run whose disconnect raises \<^verbatim>\<open>OSError\<close>: the call still
  returns normally, as it does when the disconnect succeeds.
\<close>

theorem disconnect_once_after_connect_witness:
  "fst (connect_client flaky_write_stack ''aa:bb:cc:dd:ee:ff'' []) = Inr (BleakClient solem_device) \<and>
   snd (write_and_commit flaky_write_stack ''aa:bb:cc:dd:ee:ff''
          [0x31, 0x05, 0x12, 0xFF, 0x00, 0xFF, 0xFF] []) =
     [FindDeviceByAddress ''aa:bb:cc:dd:ee:ff'', ConnectTry solem_device, IsConnected True,
      IsConnected True, WriteGattChar [0x31, 0x05, 0x12, 0xFF, 0x00, 0xFF, 0xFF] (Some OSError),
      Sleep 400, IsConnected True, WriteGattChar [0x31, 0x05, 0x12, 0xFF, 0x00, 0xFF, 0xFF] None,
      IsConnected True, WriteGattChar [0x3B, 0x00] None] @ [Disconnect (Some OSError)] \<and>
   fst (write_and_commit flaky_write_stack ''aa:bb:cc:dd:ee:ff''
          [0x31, 0x05, 0x12, 0xFF, 0x00, 0xFF, 0xFF] []) =
     fst (write_and_commit (flaky_write_stack\<lparr>disconnect := (\<lambda>h. None)\<rparr>) ''aa:bb:cc:dd:ee:ff''
          [0x31, 0x05, 0x12, 0xFF, 0x00, 0xFF, 0xFF] []) \<and>
   fst (list_characteristics flaky_write_stack ''aa:bb:cc:dd:ee:ff'' []) =
     fst (list_characteristics (flaky_write_stack\<lparr>disconnect := (\<lambda>h. None)\<rparr>)
            ''aa:bb:cc:dd:ee:ff'' [])"
proof -
  have c: "fst (connect_client flaky_write_stack ''aa:bb:cc:dd:ee:ff'' []) =
      Inr (BleakClient solem_device)"
    by (simp add: run_defs flaky_write_stack_def steady_stack_def)
  have e: "snd (write_and_commit flaky_write_stack ''aa:bb:cc:dd:ee:ff''
          [0x31, 0x05, 0x12, 0xFF, 0x00, 0xFF, 0xFF] []) =
     [FindDeviceByAddress ''aa:bb:cc:dd:ee:ff'', ConnectTry solem_device, IsConnected True,
      IsConnected True, WriteGattChar [0x31, 0x05, 0x12, 0xFF, 0x00, 0xFF, 0xFF] (Some OSError),
      Sleep 400, IsConnected True, WriteGattChar [0x31, 0x05, 0x12, 0xFF, 0x00, 0xFF, 0xFF] None,
      IsConnected True, WriteGattChar [0x3B, 0x00] None] @ [Disconnect (Some OSError)]"
    by (simp add: run_defs flaky_write_stack_def steady_stack_def)
  from disconnect_once_after_connect
         [OF c, of "[0x31, 0x05, 0x12, 0xFF, 0x00, 0xFF, 0xFF]" "\<lambda>h. None"]
  have "fst (write_and_commit (flaky_write_stack\<lparr>disconnect := (\<lambda>h. None)\<rparr>)
              ''aa:bb:cc:dd:ee:ff'' [0x31, 0x05, 0x12, 0xFF, 0x00, 0xFF, 0xFF] []) =
        fst (write_and_commit flaky_write_stack ''aa:bb:cc:dd:ee:ff''
              [0x31, 0x05, 0x12, 0xFF, 0x00, 0xFF, 0xFF] [])"
    and "fst (list_characteristics (flaky_write_stack\<lparr>disconnect := (\<lambda>h. None)\<rparr>)
            ''aa:bb:cc:dd:ee:ff'' []) =
         fst (list_characteristics flaky_write_stack ''aa:bb:cc:dd:ee:ff'' [])"
    by blast+
  with c e show ?thesis by simp
qed

text \<open>
  C8: every failure while the connection is established reaches the caller as
  \<^verbatim>\<open>APIConnectionError\<close>, never as a raw transport exception. On the code an
  exception of the scanner does not: the resolution stands before the \<^verbatim>\<open>try\<close> of
  \<^verbatim>\<open>_connect_client\<close>, so a D-Bus error raised by the address lookup leaves
  \<^verbatim>\<open>_connect_client\<close> and \<^verbatim>\<open>turn_on\<close> as it is, while the same error raised by the
  connector is wrapped with the timeout message.
\<close>

theorem scanner_exception_reaches_caller_raw:
  "connect_client scanner_down_stack ''aa:bb:cc:dd:ee:ff'' [] =
     (Inl BleakDBusError, [FindDeviceByAddress ''aa:bb:cc:dd:ee:ff'']) \<and>
   turn_on scanner_down_stack ''aa:bb:cc:dd:ee:ff'' [] =
     (Inl BleakDBusError, [FindDeviceByAddress ''aa:bb:cc:dd:ee:ff'']) \<and>
   connect_client connector_down_stack ''aa:bb:cc:dd:ee:ff'' [] =
     (Inl (APIConnectionError ''Timeout connecting to device''),
      [FindDeviceByAddress ''aa:bb:cc:dd:ee:ff'', ConnectTry solem_device])"
  by (simp add: run_defs scanner_down_stack_def connector_down_stack_def steady_stack_def)

text \<open>
  The failures that C8 names are wrapped as it says: out of connection slots in the
  connector gives the slots message, and no GATT write follows.
\<close>

lemma out_of_slots_run:
  "turn_on out_of_slots_stack ''aa:bb:cc:dd:ee:ff'' [] =
     (Inl (APIConnectionError
        ''Bluetooth adapter/proxy out of connection slots or device busy/unreachable''),
      [FindDeviceByAddress ''aa:bb:cc:dd:ee:ff'', ConnectTry solem_device])"
  by (simp add: run_defs out_of_slots_stack_def steady_stack_def)

text \<open>
  C10 as stated fails for an empty configured address: a device without an address is
  then the match that resolution returns.
\<close>

theorem absent_address_match_counterexample:
  "scan_match [] [nameless_device] = Some nameless_device \<and>
   address nameless_device = None \<and>
   resolve_ble_device nameless_stack [] [] =
     (Inr nameless_device, [FindDeviceByAddress [], Discover])"
  by (simp add: run_defs nameless_stack_def steady_stack_def nameless_device_def)

text \<open>C10 as amended, on a scan result that starts with a device without an address.\<close>

theorem absent_address_is_no_match_witness:
  "''aa:bb:cc:dd:ee:ff'' \<noteq> [] \<and> address nameless_device = None \<and>
   scan_match ''aa:bb:cc:dd:ee:ff'' (nameless_device # [other_device, solem_device]) =
     scan_match ''aa:bb:cc:dd:ee:ff'' [other_device, solem_device] \<and>
   scan_match ''aa:bb:cc:dd:ee:ff'' [other_device, solem_device] = Some solem_device"
proof -
  have m: "''aa:bb:cc:dd:ee:ff'' \<noteq> []" by simp
  have a: "address nameless_device = None" by (simp add: nameless_device_def)
  from absent_address_is_no_match [OF m, of nameless_device "[other_device, solem_device]"] a
  have "scan_match ''aa:bb:cc:dd:ee:ff'' (nameless_device # [other_device, solem_device]) =
     scan_match ''aa:bb:cc:dd:ee:ff'' [other_device, solem_device]" by blast
  moreover have "scan_match ''aa:bb:cc:dd:ee:ff'' [other_device, solem_device] = Some solem_device"
    by (simp add: run_defs stack_defs)
  ultimately show ?thesis using m a by blast
qed

end
